theory Spec2Isabelle
  imports Main
begin

section \<open>The host document\<close>

text \<open>
  The script \<^verbatim>\<open>tooltip.js\<close> works on the document of the page that loads it. The
  document is modelled as the list of its elements in tree order; a reference to an
  element (what \<^verbatim>\<open>getElementById\<close> and \<^verbatim>\<open>querySelectorAll\<close> hand out) is the position
  of the element in that list, so that two references to one element alias.

  An element carries what the script reads or writes: its local name, its attributes, the
  three inline style properties \<^verbatim>\<open>left\<close>, \<^verbatim>\<open>top\<close>, \<^verbatim>\<open>display\<close>, and the markup string last
  assigned to \<^verbatim>\<open>innerHTML\<close>. The host parses that markup into the children of the
  element; what text the element then holds is given by \<open>textContent\<close> below, for
  the part of the markup language that the model covers. The tree structure, the
  parsing of assigned style values by the host, and event bubbling are not part of the
  model.

  The numbers of the script are binary64 numbers. The model covers the integer-valued
  ones and represents each by the integer it denotes: the sum of two numbers is rounded
  to the nearest binary64 number, and the conversion to a string is the one of the
  language (\<open>number_add\<close>, \<open>number_to_string\<close> below). Coordinates with a
  fractional part are outside the model.

  The references the script holds come from the two lookups at load time, and the
  number of elements does not change afterwards, so every reference it uses denotes an
  element; the properties below are stated for such pages (\<open>loaded\<close>).
\<close>

type_synonym node = nat

record element =
  localName :: string
  attributes :: "(string \<times> string) list"
  style_left :: string
  style_top :: string
  style_display :: string
  innerHTML :: string

text \<open>\<^verbatim>\<open>el.getAttribute(name)\<close>: the value of the attribute, \<^verbatim>\<open>null\<close> (here \<open>None\<close>) when
  the element has no such attribute.\<close>

definition getAttribute :: "element \<Rightarrow> string \<Rightarrow> string option" where
  "getAttribute el name = map_of (attributes el) name"

text \<open>\<^verbatim>\<open>el.id\<close> reflects the \<^verbatim>\<open>id\<close> attribute: the empty string when it is absent.\<close>

definition element_id :: "element \<Rightarrow> string" where
  "element_id el = (case getAttribute el ''id'' of None \<Rightarrow> [] | Some v \<Rightarrow> v)"

text \<open>\<^verbatim>\<open>document.getElementById(i)\<close>: the first element in tree order whose \<^verbatim>\<open>id\<close>
  attribute is \<open>i\<close>, or \<^verbatim>\<open>null\<close>.\<close>

definition getElementById :: "element list \<Rightarrow> string \<Rightarrow> node option" where
  "getElementById d i =
     (case filter (\<lambda>n. getAttribute (d ! n) ''id'' = Some i) [0..<length d] of
        [] \<Rightarrow> None
      | n # _ \<Rightarrow> Some n)"

text \<open>\<^verbatim>\<open>document.querySelectorAll(sel)\<close> for a type selector: the elements with that local
  name, in tree order.\<close>

definition querySelectorAll :: "element list \<Rightarrow> string \<Rightarrow> node list" where
  "querySelectorAll d sel = filter (\<lambda>n. localName (d ! n) = sel) [0..<length d]"

subsection \<open>Numbers\<close>

text \<open>The spacing of the binary64 numbers around a non-negative integer \<open>a\<close>: 1 below
  \<open>2\<^sup>5\<^sup>3\<close> (9007199254740992), doubling with every further binary digit.\<close>

function ulp :: "int \<Rightarrow> int" where
  "ulp a = (if a < 9007199254740992 then 1 else 2 * ulp (a div 2))"
  by pat_completeness auto
termination
  by (relation "measure nat") auto

declare ulp.simps [simp del]

text \<open>The binary64 number nearest to an integer: the nearest multiple of the spacing, the
  one with the even significand when two are equally near. (From \<open>2\<^sup>1\<^sup>0\<^sup>2\<^sup>4\<close> on the
  host has no finite number; \<open>is_binary64\<close> excludes those integers.)\<close>

definition round_binary64 :: "int \<Rightarrow> int" where
  "round_binary64 s =
     (let a = \<bar>s\<bar>; u = ulp a; q = a div u; r = a mod u;
          q' = (if u < 2 * r \<or> (u = 2 * r \<and> odd q) then q + 1 else q)
      in sgn s * (q' * u))"


text \<open>\<^verbatim>\<open>a + b\<close> on two numbers.\<close>

definition number_add :: "int \<Rightarrow> int \<Rightarrow> int" where
  "number_add a b = round_binary64 (a + b)"

subsection \<open>Strings made by the script\<close>

text \<open>The decimal digits of a non-negative integer.\<close>

definition digit_char :: "nat \<Rightarrow> char" where
  "digit_char k = ''0123456789'' ! k"

function digits :: "int \<Rightarrow> string" where
  "digits n = (if n < 10 then [digit_char (nat n)] else digits (n div 10) @ [digit_char (nat (n mod 10))])"
  by pat_completeness auto
termination
  by (relation "measure nat") auto

declare digits.simps [simp del]

text \<open>The conversion of a number to a string takes the decimal with the fewest
  significant digits that still denotes the number, that is, that rounds to it. The
  candidates with \<open>k\<close> significant digits are the two multiples of the power of ten
  \<open>p\<close> around \<open>v\<close>; of two that both round to \<open>v\<close> the nearer one is taken, the one with
  the even digit string when they are equally near. The search goes from one
  significant digit to all digits of \<open>v\<close>.\<close>

fun shortest_from :: "int \<Rightarrow> int list \<Rightarrow> int" where
  "shortest_from v [] = v"
| "shortest_from v (p # ps) =
     (let lo = (v div p) * p; hi = lo + p;
          lo_ok = (round_binary64 lo = v);
          hi_ok = (round_binary64 hi = v)
      in if lo_ok \<and> hi_ok then
           (if v - lo < hi - v then lo else if hi - v < v - lo then hi
            else if even (v div p) then lo else hi)
         else if lo_ok then lo
         else if hi_ok then hi
         else shortest_from v ps)"

definition shortest_decimal :: "int \<Rightarrow> int" where
  "shortest_decimal v = shortest_from v (map (\<lambda>k. 10 ^ k) (rev [0..<length (digits v)]))"

text \<open>Exponent notation, used from \<open>10\<^sup>2\<^sup>1\<close> on: the first significant digit, the others
  after a point if there are any, then \<^verbatim>\<open>e+\<close> and the decimal exponent.\<close>

definition exponent_form :: "int \<Rightarrow> string" where
  "exponent_form c =
     (let ds = digits c;
          sig = rev (dropWhile (\<lambda>x. x = CHR ''0'') (rev ds))
      in (if length sig = 1 then sig else hd sig # CHR ''.'' # tl sig) @ ''e+'' @
         digits (int (length ds) - 1))"

text \<open>The host's conversion of an integer-valued number to a string.\<close>

definition number_to_string :: "int \<Rightarrow> string" where
  "number_to_string v =
     (let c = shortest_decimal \<bar>v\<bar>;
          str = (if c < 10 ^ 21 then digits c else exponent_form c)
      in if v < 0 then CHR ''-'' # str else str)"

text \<open>A value substituted into a template literal: a string as it is, \<^verbatim>\<open>null\<close> as the
  four characters \<^verbatim>\<open>null\<close>.\<close>

definition template_string :: "string option \<Rightarrow> string" where
  "template_string v = (case v of None \<Rightarrow> ''null'' | Some s \<Rightarrow> s)"





subsection \<open>Markup assigned to an element\<close>







subsection \<open>Events, listeners and the page\<close>

text \<open>A mouse event: its type, its target, and its page coordinates, which are numbers
  (\<open>is_binary64\<close>).\<close>

record mouse_event =
  ev_type :: string
  target :: node
  pageX :: int
  pageY :: int

datatype error = TypeError

text \<open>The two arrow functions of the script, as closures: the move listener captures
  \<^verbatim>\<open>tooltip\<close> and \<^verbatim>\<open>state\<close>, the leave listener captures \<^verbatim>\<open>tooltip\<close>. The captured
  \<^verbatim>\<open>tooltip\<close> is \<open>None\<close> when \<^verbatim>\<open>getElementById\<close> returned \<^verbatim>\<open>null\<close>.\<close>

datatype handler =
  Mousemove_handler "node option" node
| Mouseleave_handler "node option"

record page =
  elements :: "element list"
  listeners :: "(node \<times> string \<times> handler) list"
  uncaught :: "error list"

section \<open>The script\<close>

text \<open>The body of the \<^verbatim>\<open>mousemove\<close> listener, one assignment after the other. Reading a
  property of a \<^verbatim>\<open>null\<close> tooltip throws, after the attribute has been read and before
  anything is written. In \<^verbatim>\<open>e.pageX + 10 + 'px'\<close> the two numbers are added first and the
  sum is converted to a string. The last assignment hands the string to the host as
  markup; the field keeps the string, \<open>textContent\<close> reads the text that results.\<close>

definition mousemove :: "node option \<Rightarrow> node \<Rightarrow> mouse_event \<Rightarrow> element list \<Rightarrow> error + element list" where
  "mousemove tooltip state e d =
     (let value = getAttribute (d ! state) ''data-inflation'' in
      case tooltip of
        None \<Rightarrow> Inl TypeError
      | Some t \<Rightarrow>
          let d1 = d[t := (d ! t)\<lparr>style_left := number_to_string (number_add (pageX e) 10) @ ''px''\<rparr>];
              d2 = d1[t := (d1 ! t)\<lparr>style_top := number_to_string (number_add (pageY e) 10) @ ''px''\<rparr>];
              d3 = d2[t := (d2 ! t)\<lparr>style_display := ''block''\<rparr>]
          in Inr (d3[t := (d3 ! t)\<lparr>innerHTML := element_id (d3 ! state) @ '': '' @ template_string value\<rparr>]))"

text \<open>The body of the \<^verbatim>\<open>mouseleave\<close> listener.\<close>

definition mouseleave :: "node option \<Rightarrow> element list \<Rightarrow> error + element list" where
  "mouseleave tooltip d =
     (case tooltip of
        None \<Rightarrow> Inl TypeError
      | Some t \<Rightarrow> Inr (d[t := (d ! t)\<lparr>style_display := ''none''\<rparr>]))"

fun invoke :: "handler \<Rightarrow> mouse_event \<Rightarrow> element list \<Rightarrow> error + element list" where
  "invoke (Mousemove_handler tooltip state) e d = mousemove tooltip state e d"
| "invoke (Mouseleave_handler tooltip) e d = mouseleave tooltip d"

text \<open>\<^verbatim>\<open>target.addEventListener(type, listener)\<close> appends to the listeners of the page;
  every closure of the script is a fresh function, so none is ever a duplicate.\<close>

definition addEventListener ::
  "node \<Rightarrow> string \<Rightarrow> handler \<Rightarrow> (node \<times> string \<times> handler) list \<Rightarrow> (node \<times> string \<times> handler) list" where
  "addEventListener tgt ty h ls = ls @ [(tgt, ty, h)]"

text \<open>The callback given to \<^verbatim>\<open>forEach\<close>: two registrations on \<^verbatim>\<open>state\<close>.\<close>

definition register :: "node option \<Rightarrow> node \<Rightarrow> (node \<times> string \<times> handler) list \<Rightarrow> (node \<times> string \<times> handler) list" where
  "register tooltip state ls =
     addEventListener state ''mouseleave'' (Mouseleave_handler tooltip)
       (addEventListener state ''mousemove'' (Mousemove_handler tooltip state) ls)"

fun forEach :: "('a \<Rightarrow> 's \<Rightarrow> 's) \<Rightarrow> 'a list \<Rightarrow> 's \<Rightarrow> 's" where
  "forEach f [] s = s"
| "forEach f (x # xs) s = forEach f xs (f x s)"

text \<open>Loading the script on a document \<open>d\<close> that has no listeners yet.\<close>

definition script :: "element list \<Rightarrow> page" where
  "script d =
     (let tooltip = getElementById d ''tooltip'' in
      \<lparr>elements = d,
       listeners = forEach (register tooltip) (querySelectorAll d ''path'') [],
       uncaught = []\<rparr>)"

subsection \<open>Dispatch by the host\<close>

text \<open>The host calls the listeners registered on the target for the type of the event, in
  the order of their registration. An exception thrown by a listener is reported and
  the next listener runs.\<close>

definition listeners_for :: "page \<Rightarrow> node \<Rightarrow> string \<Rightarrow> handler list" where
  "listeners_for p n ty = map (\<lambda>l. snd (snd l)) (filter (\<lambda>l. fst l = n \<and> fst (snd l) = ty) (listeners p))"

definition call_listener :: "mouse_event \<Rightarrow> handler \<Rightarrow> page \<Rightarrow> page" where
  "call_listener e h p =
     (case invoke h e (elements p) of
        Inl err \<Rightarrow> p\<lparr>uncaught := uncaught p @ [err]\<rparr>
      | Inr d' \<Rightarrow> p\<lparr>elements := d'\<rparr>)"

definition dispatchEvent :: "page \<Rightarrow> mouse_event \<Rightarrow> page" where
  "dispatchEvent p e = forEach (call_listener e) (listeners_for p (target e) (ev_type e)) p"

text \<open>A sequence of events, dispatched in the order generated.\<close>

fun dispatch_all :: "page \<Rightarrow> mouse_event list \<Rightarrow> page" where
  "dispatch_all p [] = p"
| "dispatch_all p (e # es) = dispatch_all (dispatchEvent p e) es"

definition mousemove_event :: "node \<Rightarrow> int \<Rightarrow> int \<Rightarrow> mouse_event" where
  "mousemove_event n x y = \<lparr>ev_type = ''mousemove'', target = n, pageX = x, pageY = y\<rparr>"

definition mouseleave_event :: "node \<Rightarrow> int \<Rightarrow> int \<Rightarrow> mouse_event" where
  "mouseleave_event n x y = \<lparr>ev_type = ''mouseleave'', target = n, pageX = x, pageY = y\<rparr>"

text \<open>\<^verbatim>\<open>el.setAttribute(name, v)\<close>, called by the page or another script: the value of an
  attribute the element has is replaced, a new attribute is added at the end.\<close>

fun update_attribute :: "string \<Rightarrow> string \<Rightarrow> (string \<times> string) list \<Rightarrow> (string \<times> string) list" where
  "update_attribute name v [] = [(name, v)]"
| "update_attribute name v ((k, w) # as) =
     (if k = name then (k, v) # as else (k, w) # update_attribute name v as)"

definition setAttribute :: "node \<Rightarrow> string \<Rightarrow> string \<Rightarrow> page \<Rightarrow> page" where
  "setAttribute n name v p =
     p\<lparr>elements := (elements p)[n := (elements p ! n)\<lparr>attributes := update_attribute name v (attributes (elements p ! n))\<rparr>]\<rparr>"

text \<open>A page on which the script has been loaded, at any later moment: the listeners are
  those the script registered on the document \<open>d\<close> it was loaded on; the elements
  are the same in number and may have been changed since in any way.\<close>

definition loaded :: "element list \<Rightarrow> page \<Rightarrow> bool" where
  "loaded d p \<longleftrightarrow> listeners p = listeners (script d) \<and> length (elements p) = length d"

text \<open>The document of the scenarios: the tooltip, a region with a value, a region
  without.\<close>

definition demo_document :: "element list" where
  "demo_document =
    [\<lparr>localName = ''div'', attributes = [(''id'', ''tooltip'')],
      style_left = [], style_top = [], style_display = ''none'', innerHTML = []\<rparr>,
     \<lparr>localName = ''path'', attributes = [(''id'', ''CA''), (''data-inflation'', ''3.2%'')],
      style_left = [], style_top = [], style_display = [], innerHTML = []\<rparr>,
     \<lparr>localName = ''path'', attributes = [(''id'', ''TX'')],
      style_left = [], style_top = [], style_display = [], innerHTML = []\<rparr>]"


section \<open>Facts about the model\<close>

subsection \<open>Numbers below \<open>2\<^sup>5\<^sup>3\<close>\<close>










subsection \<open>Decimal strings\<close>









subsection \<open>Plain text as markup\<close>




subsection \<open>Lookups in the document\<close>

lemma distinct_querySelectorAll: "distinct (querySelectorAll d sel)"
  by (simp add: querySelectorAll_def)

lemma querySelectorAll_bound: "n \<in> set (querySelectorAll d sel) \<Longrightarrow> n < length d"
  by (simp add: querySelectorAll_def)

lemma getElementById_bound: "getElementById d i = Some t \<Longrightarrow> t < length d"
proof -
  assume a: "getElementById d i = Some t"
  then obtain ns where "filter (\<lambda>n. getAttribute (d ! n) ''id'' = Some i) [0..<length d] = t # ns"
    by (auto simp: getElementById_def split: list.splits)
  then have "t \<in> set (filter (\<lambda>n. getAttribute (d ! n) ''id'' = Some i) [0..<length d])"
    by simp
  then show ?thesis by simp
qed

subsection \<open>The listeners the script registers\<close>

lemma forEach_register:
  "forEach (register tt) xs ls =
     ls @ concat (map (\<lambda>s. [(s, ''mousemove'', Mousemove_handler tt s),
                             (s, ''mouseleave'', Mouseleave_handler tt)]) xs)"
  by (induction xs arbitrary: ls) (simp_all add: register_def addEventListener_def)

lemma listeners_script:
  "listeners (script d) =
     concat (map (\<lambda>s. [(s, ''mousemove'', Mousemove_handler (getElementById d ''tooltip'') s),
                        (s, ''mouseleave'', Mouseleave_handler (getElementById d ''tooltip''))])
                 (querySelectorAll d ''path''))"
  by (simp add: script_def forEach_register Let_def)

lemma filter_registrations:
  "distinct xs \<Longrightarrow>
   map (\<lambda>l. snd (snd l)) (filter (\<lambda>l. fst l = n \<and> fst (snd l) = ty)
     (concat (map (\<lambda>s. [(s, ''mousemove'', Mousemove_handler tt s),
                         (s, ''mouseleave'', Mouseleave_handler tt)]) xs))) =
   (if n \<in> set xs then
      (if ty = ''mousemove'' then [Mousemove_handler tt n]
       else if ty = ''mouseleave'' then [Mouseleave_handler tt] else [])
    else [])"
  by (induction xs) auto

lemma listeners_for_loaded:
  "loaded d p \<Longrightarrow> listeners_for p n ty =
   (if n \<in> set (querySelectorAll d ''path'') then
      (if ty = ''mousemove'' then [Mousemove_handler (getElementById d ''tooltip'') n]
       else if ty = ''mouseleave'' then [Mouseleave_handler (getElementById d ''tooltip'')] else [])
    else [])"
  unfolding listeners_for_def loaded_def listeners_script
  by (simp only: filter_registrations [OF distinct_querySelectorAll])

lemma loaded_script: "loaded d (script d)"
  by (simp add: loaded_def script_def Let_def)

subsection \<open>The two listeners with a tooltip\<close>

lemma mousemove_Some:
  "mousemove (Some t) state e d =
     Inr (d[t := (d ! t)\<lparr>style_left := number_to_string (number_add (pageX e) 10) @ ''px'',
                         style_top := number_to_string (number_add (pageY e) 10) @ ''px'',
                         style_display := ''block'',
                         innerHTML := element_id (d ! state) @ '': '' @
                                      template_string (getAttribute (d ! state) ''data-inflation'')\<rparr>])"
proof (cases "t < length d")
  case True
  then show ?thesis
    by (cases "state = t") (simp_all add: mousemove_def Let_def element_id_def getAttribute_def)
next
  case False
  then have "\<And>x. d[t := x] = d"
    by (simp add: list_update_beyond)
  then show ?thesis
    by (simp add: mousemove_def Let_def)
qed

lemma mouseleave_Some:
  "mouseleave (Some t) d = Inr (d[t := (d ! t)\<lparr>style_display := ''none''\<rparr>])"
  by (simp add: mouseleave_def)

lemma dispatch_mousemove:
  assumes "loaded d p" and "getElementById d ''tooltip'' = Some t"
    and "target e \<in> set (querySelectorAll d ''path'')" and "ev_type e = ''mousemove''"
  shows "dispatchEvent p e =
    p\<lparr>elements := (elements p)[t := (elements p ! t)
        \<lparr>style_left := number_to_string (number_add (pageX e) 10) @ ''px'',
         style_top := number_to_string (number_add (pageY e) 10) @ ''px'',
         style_display := ''block'',
         innerHTML := element_id (elements p ! target e) @ '': '' @
                      template_string (getAttribute (elements p ! target e) ''data-inflation'')\<rparr>]\<rparr>"
  using assms
  by (simp add: dispatchEvent_def listeners_for_loaded call_listener_def mousemove_Some)

lemma dispatch_mouseleave:
  assumes "loaded d p" and "getElementById d ''tooltip'' = Some t"
    and "target e \<in> set (querySelectorAll d ''path'')" and "ev_type e = ''mouseleave''"
  shows "dispatchEvent p e =
    p\<lparr>elements := (elements p)[t := (elements p ! t)\<lparr>style_display := ''none''\<rparr>]\<rparr>"
  using assms
  by (simp add: dispatchEvent_def listeners_for_loaded call_listener_def mouseleave_Some)

lemma dispatch_other:
  assumes "loaded d p"
    and "target e \<notin> set (querySelectorAll d ''path'') \<or>
         (ev_type e \<noteq> ''mousemove'' \<and> ev_type e \<noteq> ''mouseleave'')"
  shows "dispatchEvent p e = p"
  using assms
  by (auto simp: dispatchEvent_def listeners_for_loaded)

text \<open>Without an element \<^verbatim>\<open>tooltip\<close> in the document both listeners throw and change
  nothing.\<close>

lemma dispatch_without_tooltip:
  assumes "loaded d p" and "getElementById d ''tooltip'' = None"
    and "target e \<in> set (querySelectorAll d ''path'')"
    and "ev_type e = ''mousemove'' \<or> ev_type e = ''mouseleave''"
  shows "dispatchEvent p e = p\<lparr>uncaught := uncaught p @ [TypeError]\<rparr>"
  using assms
  by (auto simp: dispatchEvent_def listeners_for_loaded call_listener_def mousemove_def mouseleave_def)

lemma loaded_tooltip_bound:
  "loaded d p \<Longrightarrow> getElementById d ''tooltip'' = Some t \<Longrightarrow> t < length (elements p)"
  by (simp add: loaded_def getElementById_bound)

lemma loaded_region_bound:
  "loaded d p \<Longrightarrow> state \<in> set (querySelectorAll d ''path'') \<Longrightarrow> state < length (elements p)"
  by (simp add: loaded_def querySelectorAll_bound)

subsection \<open>Sequences of events and changes of attributes\<close>

lemma dispatch_all_append:
  "dispatch_all p (es @ es') = dispatch_all (dispatch_all p es) es'"
  by (induction es arbitrary: p) simp_all

lemma map_attributes_update:
  "attributes x = attributes (xs ! t) \<Longrightarrow> map attributes (xs[t := x]) = map attributes xs"
  by (induction xs arbitrary: t) (simp_all split: nat.split)

lemma dispatchEvent_keeps:
  assumes "loaded d p" and "getElementById d ''tooltip'' = Some t"
  shows "loaded d (dispatchEvent p e)
       \<and> map attributes (elements (dispatchEvent p e)) = map attributes (elements p)"
proof -
  consider (move) "target e \<in> set (querySelectorAll d ''path'')" "ev_type e = ''mousemove''"
    | (leave) "target e \<in> set (querySelectorAll d ''path'')" "ev_type e = ''mouseleave''"
    | (other) "target e \<notin> set (querySelectorAll d ''path'') \<or>
         (ev_type e \<noteq> ''mousemove'' \<and> ev_type e \<noteq> ''mouseleave'')"
    by blast
  then show ?thesis
  proof cases
    case move
    with assms show ?thesis
      by (simp add: dispatch_mousemove loaded_def map_attributes_update)
  next
    case leave
    with assms show ?thesis
      by (simp add: dispatch_mouseleave loaded_def map_attributes_update)
  next
    case other
    with assms show ?thesis
      by (simp add: dispatch_other)
  qed
qed

lemma dispatch_all_keeps:
  assumes "getElementById d ''tooltip'' = Some t"
  shows "loaded d p \<Longrightarrow> loaded d (dispatch_all p es)
       \<and> map attributes (elements (dispatch_all p es)) = map attributes (elements p)"
proof (induction es arbitrary: p)
  case Nil
  then show ?case by simp
next
  case (Cons e es)
  from dispatchEvent_keeps [OF Cons.prems assms, of e]
  have l: "loaded d (dispatchEvent p e)"
    and a: "map attributes (elements (dispatchEvent p e)) = map attributes (elements p)"
    by simp_all
  from Cons.IH [OF l] a show ?case by simp
qed

lemma same_attributes_nth:
  assumes "map attributes xs = map attributes ys" and "n < length ys"
  shows "attributes (xs ! n) = attributes (ys ! n)"
proof -
  have "length xs = length ys"
    using assms(1) by (rule map_eq_imp_length_eq)
  with assms have "map attributes xs ! n = map attributes ys ! n" and "n < length xs"
    by simp_all
  with assms(2) show ?thesis by simp
qed

lemma map_of_update_attribute:
  "map_of (update_attribute name v as) k = (if k = name then Some v else map_of as k)"
  by (induction as) auto

lemma loaded_setAttribute: "loaded d p \<Longrightarrow> loaded d (setAttribute n name v p)"
  by (simp add: loaded_def setAttribute_def)

lemma getAttribute_setAttribute:
  "n < length (elements p) \<Longrightarrow>
   getAttribute (elements (setAttribute n name v p) ! n) k =
     (if k = name then Some v else getAttribute (elements p ! n) k)"
  by (simp add: setAttribute_def getAttribute_def map_of_update_attribute)

section \<open>Properties of the tooltip controller\<close>

text \<open>
  In what follows \<open>d\<close> is the document the script was loaded on, \<open>p\<close> any later
  state of the page, \<open>t\<close> the overlay (the element found under the identifier
  \<^verbatim>\<open>tooltip\<close>) and \<open>state\<close> a region (one of the \<^verbatim>\<open>path\<close> elements).
\<close>







text \<open>
  Claim C3. Whatever the overlay's position, content and visibility were, a
  pointer-leave event on a region makes the overlay hidden (\<^verbatim>\<open>display\<close> is \<^verbatim>\<open>none\<close>).
\<close>

theorem mouseleave_hides_overlay:
  assumes "loaded d p" and "getElementById d ''tooltip'' = Some t"
    and "state \<in> set (querySelectorAll d ''path'')"
  shows "style_display (elements (dispatchEvent p (mouseleave_event state x y)) ! t) = ''none''"
proof -
  have "t < length (elements p)"
    using assms(1,2) by (rule loaded_tooltip_bound)
  moreover have "target (mouseleave_event state x y) = state"
    and "ev_type (mouseleave_event state x y) = ''mouseleave''"
    by (simp_all add: mouseleave_event_def)
  ultimately show ?thesis
    using assms by (simp add: dispatch_mouseleave)
qed

text \<open>Scenario 2 of the specification: leaving \<^verbatim>\<open>CA\<close> after a move over it.\<close>

theorem mouseleave_hides_overlay_witness:
  "style_display (elements (dispatchEvent (script demo_document) (mousemove_event 1 100 200)) ! 0) = ''block''
 \<and> style_display (elements (dispatchEvent
      (dispatchEvent (script demo_document) (mousemove_event 1 100 200)) (mouseleave_event 1 300 5)) ! 0) = ''none''"
proof -
  have h1: "loaded demo_document (dispatchEvent (script demo_document) (mousemove_event 1 100 200))"
    by code_simp
  have h2: "getElementById demo_document ''tooltip'' = Some 0"
    by code_simp
  have h3: "1 \<in> set (querySelectorAll demo_document ''path'')"
    by code_simp
  have h4: "style_display (elements (dispatchEvent (script demo_document) (mousemove_event 1 100 200)) ! 0) = ''block''"
    by code_simp
  show ?thesis
    using mouseleave_hides_overlay [OF h1 h2 h3, of 300 5] h4 by simp
qed

text \<open>
  Claim C4. The pointer-leave listener changes the overlay's visibility and nothing
  else: the overlay's \<^verbatim>\<open>left\<close>, \<^verbatim>\<open>top\<close> and content are what they were, its local name
  and attributes too, every other element is as it was, and so are the listeners of
  the page.
\<close>

theorem mouseleave_changes_display_only:
  assumes "loaded d p" and "getElementById d ''tooltip'' = Some t"
    and "state \<in> set (querySelectorAll d ''path'')"
  shows "style_left (elements (dispatchEvent p (mouseleave_event state x y)) ! t) = style_left (elements p ! t)
       \<and> style_top (elements (dispatchEvent p (mouseleave_event state x y)) ! t) = style_top (elements p ! t)
       \<and> innerHTML (elements (dispatchEvent p (mouseleave_event state x y)) ! t) = innerHTML (elements p ! t)
       \<and> localName (elements (dispatchEvent p (mouseleave_event state x y)) ! t) = localName (elements p ! t)
       \<and> attributes (elements (dispatchEvent p (mouseleave_event state x y)) ! t) = attributes (elements p ! t)
       \<and> elements (dispatchEvent p (mouseleave_event state x y)) =
           (elements p)[t := (elements p ! t)\<lparr>style_display := ''none''\<rparr>]
       \<and> listeners (dispatchEvent p (mouseleave_event state x y)) = listeners p
       \<and> uncaught (dispatchEvent p (mouseleave_event state x y)) = uncaught p"
proof -
  have "t < length (elements p)"
    using assms(1,2) by (rule loaded_tooltip_bound)
  moreover have "target (mouseleave_event state x y) = state"
    and "ev_type (mouseleave_event state x y) = ''mouseleave''"
    by (simp_all add: mouseleave_event_def)
  ultimately show ?thesis
    using assms by (simp add: dispatch_mouseleave)
qed

text \<open>Scenario 2 of the specification: after leaving \<^verbatim>\<open>CA\<close> the overlay keeps the
  position and the content of the move before.\<close>

theorem mouseleave_changes_display_only_witness:
  "style_left (elements (dispatchEvent
      (dispatchEvent (script demo_document) (mousemove_event 1 100 200)) (mouseleave_event 1 300 5)) ! 0) = ''110px''
 \<and> style_top (elements (dispatchEvent
      (dispatchEvent (script demo_document) (mousemove_event 1 100 200)) (mouseleave_event 1 300 5)) ! 0) = ''210px''
 \<and> innerHTML (elements (dispatchEvent
      (dispatchEvent (script demo_document) (mousemove_event 1 100 200)) (mouseleave_event 1 300 5)) ! 0) = ''CA: 3.2%''
 \<and> elements (dispatchEvent
      (dispatchEvent (script demo_document) (mousemove_event 1 100 200)) (mouseleave_event 1 300 5)) ! 1 =
    demo_document ! 1
 \<and> elements (dispatchEvent
      (dispatchEvent (script demo_document) (mousemove_event 1 100 200)) (mouseleave_event 1 300 5)) ! 2 =
    demo_document ! 2"
proof -
  have h1: "loaded demo_document (dispatchEvent (script demo_document) (mousemove_event 1 100 200))"
    by code_simp
  have h2: "getElementById demo_document ''tooltip'' = Some 0"
    by code_simp
  have h3: "1 \<in> set (querySelectorAll demo_document ''path'')"
    by code_simp
  have h4: "style_left (elements (dispatchEvent (script demo_document) (mousemove_event 1 100 200)) ! 0) = ''110px''"
    and h5: "style_top (elements (dispatchEvent (script demo_document) (mousemove_event 1 100 200)) ! 0) = ''210px''"
    and h6: "innerHTML (elements (dispatchEvent (script demo_document) (mousemove_event 1 100 200)) ! 0) = ''CA: 3.2%''"
    and h7: "elements (dispatchEvent (script demo_document) (mousemove_event 1 100 200)) ! 1 = demo_document ! 1"
    and h8: "elements (dispatchEvent (script demo_document) (mousemove_event 1 100 200)) ! 2 = demo_document ! 2"
    by code_simp+
  note r = mouseleave_changes_display_only [OF h1 h2 h3, of 300 5]
  note c1 = r [THEN conjunct1]
  note c2 = r [THEN conjunct2, THEN conjunct1]
  note c3 = r [THEN conjunct2, THEN conjunct2, THEN conjunct1]
  note els = r [THEN conjunct2, THEN conjunct2, THEN conjunct2, THEN conjunct2, THEN conjunct2,
    THEN conjunct1]
  have "elements (dispatchEvent
      (dispatchEvent (script demo_document) (mousemove_event 1 100 200)) (mouseleave_event 1 300 5)) ! 1 =
      demo_document ! 1"
    by (simp only: els h7 [symmetric]) simp
  moreover have "elements (dispatchEvent
      (dispatchEvent (script demo_document) (mousemove_event 1 100 200)) (mouseleave_event 1 300 5)) ! 2 =
      demo_document ! 2"
    by (simp only: els h8 [symmetric]) simp
  ultimately show ?thesis
    by (intro conjI trans [OF c1 h4] trans [OF c2 h5] trans [OF c3 h6])
qed

text \<open>
  Claim C5. The pointer-leave listener is idempotent: a second pointer-leave event
  (on the same or on another region) leaves the page, and so the overlay, exactly as
  the first one left it.
\<close>

theorem mouseleave_idempotent:
  assumes "loaded d p" and "getElementById d ''tooltip'' = Some t"
    and "state \<in> set (querySelectorAll d ''path'')"
    and "state' \<in> set (querySelectorAll d ''path'')"
  shows "dispatchEvent (dispatchEvent p (mouseleave_event state x y)) (mouseleave_event state' x' y') =
         dispatchEvent p (mouseleave_event state x y)"
proof -
  let ?q = "p\<lparr>elements := (elements p)[t := (elements p ! t)\<lparr>style_display := ''none''\<rparr>]\<rparr>"
  have t: "t < length (elements p)"
    using assms(1,2) by (rule loaded_tooltip_bound)
  have first: "dispatchEvent p (mouseleave_event state x y) = ?q"
    using assms(1-3) by (simp add: dispatch_mouseleave mouseleave_event_def)
  have "loaded d ?q"
    using assms(1) by (simp add: loaded_def)
  then have "dispatchEvent ?q (mouseleave_event state' x' y') =
      ?q\<lparr>elements := (elements ?q)[t := (elements ?q ! t)\<lparr>style_display := ''none''\<rparr>]\<rparr>"
    using assms(2,4) by (simp add: dispatch_mouseleave mouseleave_event_def)
  also have "\<dots> = ?q"
    using t by simp
  finally show ?thesis
    by (simp only: first)
qed

theorem mouseleave_idempotent_witness:
  "dispatchEvent (dispatchEvent (dispatchEvent (script demo_document) (mousemove_event 1 100 200))
      (mouseleave_event 1 300 5)) (mouseleave_event 2 0 0) =
   dispatchEvent (dispatchEvent (script demo_document) (mousemove_event 1 100 200)) (mouseleave_event 1 300 5)
 \<and> style_display (elements (dispatchEvent (dispatchEvent (dispatchEvent (script demo_document)
      (mousemove_event 1 100 200)) (mouseleave_event 1 300 5)) (mouseleave_event 2 0 0)) ! 0) = ''none''"
proof -
  have h1: "loaded demo_document (dispatchEvent (script demo_document) (mousemove_event 1 100 200))"
    by code_simp
  have h2: "getElementById demo_document ''tooltip'' = Some 0"
    by code_simp
  have h3: "1 \<in> set (querySelectorAll demo_document ''path'')"
    and h4: "2 \<in> set (querySelectorAll demo_document ''path'')"
    by code_simp+
  have h5: "style_display (elements (dispatchEvent (dispatchEvent (script demo_document)
      (mousemove_event 1 100 200)) (mouseleave_event 1 300 5)) ! 0) = ''none''"
    by code_simp
  show ?thesis
    using mouseleave_idempotent [OF h1 h2 h3 h4, of 300 5 0 0] h5 by simp
qed



text \<open>
  Claim C7. For a sequence of pointer events dispatched in order from any page state, the
  state after the sequence is the state reached before the last event with the last
  event's listener, and only that, applied to it: nothing is queued and no earlier
  event takes part otherwise. So the overlay's visibility follows from the kind of the
  last event, and its content is the one the last listener leaves: the text for the
  region of a last move, the content of the state reached before for a last leave.
\<close>

theorem last_event_wins:
  assumes "loaded d p" and "getElementById d ''tooltip'' = Some t"
    and "target e \<in> set (querySelectorAll d ''path'')"
    and "ev_type e = ''mousemove'' \<or> ev_type e = ''mouseleave''"
  shows "dispatch_all p (es @ [e]) = dispatchEvent (dispatch_all p es) e
       \<and> invoke (if ev_type e = ''mousemove'' then Mousemove_handler (Some t) (target e)
                 else Mouseleave_handler (Some t)) e (elements (dispatch_all p es)) =
           Inr (elements (dispatch_all p (es @ [e])))
       \<and> style_display (elements (dispatch_all p (es @ [e])) ! t) =
           (if ev_type e = ''mousemove'' then ''block'' else ''none'')
       \<and> innerHTML (elements (dispatch_all p (es @ [e])) ! t) =
           (if ev_type e = ''mousemove''
            then element_id (elements p ! target e) @ '': '' @
                 template_string (getAttribute (elements p ! target e) ''data-inflation'')
            else innerHTML (elements (dispatch_all p es) ! t))"
proof -
  let ?q = "dispatch_all p es"
  have step: "dispatch_all p (es @ [e]) = dispatchEvent ?q e"
    by (simp add: dispatch_all_append)
  from dispatch_all_keeps [OF assms(2,1), of es]
  have q: "loaded d ?q" and a: "map attributes (elements ?q) = map attributes (elements p)"
    by simp_all
  have t: "t < length (elements ?q)"
    using q assms(2) by (rule loaded_tooltip_bound)
  have "target e < length (elements p)"
    using assms(1,3) by (rule loaded_region_bound)
  with a have "attributes (elements ?q ! target e) = attributes (elements p ! target e)"
    by (rule same_attributes_nth)
  then have same: "element_id (elements ?q ! target e) = element_id (elements p ! target e)"
    "getAttribute (elements ?q ! target e) ''data-inflation'' =
     getAttribute (elements p ! target e) ''data-inflation''"
    by (simp_all add: element_id_def getAttribute_def)
  show ?thesis
  proof (cases "ev_type e = ''mousemove''")
    case True
    with q assms(2,3) t same show ?thesis
      by (simp add: step dispatch_mousemove mousemove_Some)
  next
    case False
    with assms(4) have "ev_type e = ''mouseleave''" by simp
    with q assms(2,3) t False show ?thesis
      by (simp add: step dispatch_mouseleave mouseleave_Some)
  qed
qed

text \<open>Two histories that end in the same move over \<^verbatim>\<open>CA\<close>.\<close>

theorem last_event_wins_witness:
  "style_display (elements (dispatch_all (script demo_document)
      ([mousemove_event 2 7 9, mouseleave_event 2 8 8] @ [mousemove_event 1 100 200])) ! 0) = ''block''
 \<and> innerHTML (elements (dispatch_all (script demo_document)
      ([mousemove_event 2 7 9, mouseleave_event 2 8 8] @ [mousemove_event 1 100 200])) ! 0) = ''CA: 3.2%''
 \<and> dispatch_all (script demo_document)
      ([mousemove_event 2 7 9, mouseleave_event 2 8 8] @ [mousemove_event 1 100 200]) =
    dispatchEvent (dispatch_all (script demo_document) [mousemove_event 2 7 9, mouseleave_event 2 8 8])
      (mousemove_event 1 100 200)"
proof -
  have h1: "loaded demo_document (script demo_document)"
    by (rule loaded_script)
  have h2: "getElementById demo_document ''tooltip'' = Some 0"
    by code_simp
  have h3: "target (mousemove_event 1 100 200) \<in> set (querySelectorAll demo_document ''path'')"
    by code_simp
  have h4: "ev_type (mousemove_event 1 100 200) = ''mousemove'' \<or>
      ev_type (mousemove_event 1 100 200) = ''mouseleave''"
    by code_simp
  have h5: "ev_type (mousemove_event 1 100 200) = ''mousemove''"
    by code_simp
  have h6: "element_id (elements (script demo_document) ! target (mousemove_event 1 100 200)) @ '': '' @
      template_string (getAttribute (elements (script demo_document) ! target (mousemove_event 1 100 200))
        ''data-inflation'') = ''CA: 3.2%''"
    by code_simp
  note r = last_event_wins [OF h1 h2 h3 h4, of "[mousemove_event 2 7 9, mouseleave_event 2 8 8]"]
  note c1 = r [THEN conjunct1]
  note c3 = r [THEN conjunct2, THEN conjunct2, THEN conjunct1]
  note c4 = r [THEN conjunct2, THEN conjunct2, THEN conjunct2]
  have "style_display (elements (dispatch_all (script demo_document)
      ([mousemove_event 2 7 9, mouseleave_event 2 8 8] @ [mousemove_event 1 100 200])) ! 0) = ''block''"
    using c3 by (simp only: h5 simp_thms if_True)
  moreover have "innerHTML (elements (dispatch_all (script demo_document)
      ([mousemove_event 2 7 9, mouseleave_event 2 8 8] @ [mousemove_event 1 100 200])) ! 0) = ''CA: 3.2%''"
    using c4 by (simp only: h5 simp_thms if_True h6)
  ultimately show ?thesis
    using c1 by (intro conjI)
qed

text \<open>
  Claim C8. Loading the script only initialises: the elements of the document are as
  they were (the overlay's position, visibility and content included), nothing has
  thrown, and the listeners of the page are, for each \<^verbatim>\<open>path\<close> element in tree order, one
  \<^verbatim>\<open>mousemove\<close> and one \<^verbatim>\<open>mouseleave\<close> listener, all holding the one result of the one
  lookup of the overlay. An element that is not a \<^verbatim>\<open>path\<close> gets no listener.
\<close>

theorem script_registers_two_listeners_per_region:
  "elements (script d) = d
 \<and> uncaught (script d) = []
 \<and> listeners (script d) =
     concat (map (\<lambda>state. [(state, ''mousemove'', Mousemove_handler (getElementById d ''tooltip'') state),
                            (state, ''mouseleave'', Mouseleave_handler (getElementById d ''tooltip''))])
                 (querySelectorAll d ''path''))
 \<and> map snd (filter (\<lambda>l. fst l = n) (listeners (script d))) =
     (if n \<in> set (querySelectorAll d ''path'')
      then [(''mousemove'', Mousemove_handler (getElementById d ''tooltip'') n),
            (''mouseleave'', Mouseleave_handler (getElementById d ''tooltip''))]
      else [])"
proof -
  have per_node: "distinct xs \<Longrightarrow>
      map snd (filter (\<lambda>l. fst l = n)
        (concat (map (\<lambda>s. [(s, ''mousemove'', Mousemove_handler tt s),
                            (s, ''mouseleave'', Mouseleave_handler tt)]) xs))) =
      (if n \<in> set xs then [(''mousemove'', Mousemove_handler tt n), (''mouseleave'', Mouseleave_handler tt)]
       else [])" for xs :: "node list" and tt
    by (induction xs) auto
  have "elements (script d) = d" and "uncaught (script d) = []"
    by (simp_all add: script_def Let_def)
  then show ?thesis
    by (simp only: listeners_script per_node [OF distinct_querySelectorAll] simp_thms)
qed

theorem script_registers_two_listeners_per_region_witness:
  "elements (script demo_document) = demo_document
 \<and> listeners (script demo_document) =
     [(1, ''mousemove'', Mousemove_handler (Some 0) 1), (1, ''mouseleave'', Mouseleave_handler (Some 0)),
      (2, ''mousemove'', Mousemove_handler (Some 0) 2), (2, ''mouseleave'', Mouseleave_handler (Some 0))]"
proof -
  have h1: "getElementById demo_document ''tooltip'' = Some 0"
    by code_simp
  have h2: "querySelectorAll demo_document ''path'' = [1, 2]"
    by code_simp
  show ?thesis
    using script_registers_two_listeners_per_region [of demo_document 0]
    by (simp add: h1 h2)
qed

text \<open>
  Claim C9. The pointer-move listener has no hidden input: two runs with the same page
  coordinates, over regions with the same identifier and the same data value, leave the
  overlay with the same \<^verbatim>\<open>left\<close>, \<^verbatim>\<open>top\<close>, \<^verbatim>\<open>display\<close> and content, whatever the two
  pages and their overlays were before.
\<close>

theorem mousemove_deterministic:
  assumes "loaded d1 p1" and "getElementById d1 ''tooltip'' = Some t1"
    and "s1 \<in> set (querySelectorAll d1 ''path'')"
    and "loaded d2 p2" and "getElementById d2 ''tooltip'' = Some t2"
    and "s2 \<in> set (querySelectorAll d2 ''path'')"
    and "element_id (elements p1 ! s1) = element_id (elements p2 ! s2)"
    and "getAttribute (elements p1 ! s1) ''data-inflation'' = getAttribute (elements p2 ! s2) ''data-inflation''"
  shows "style_left (elements (dispatchEvent p1 (mousemove_event s1 x y)) ! t1) =
         style_left (elements (dispatchEvent p2 (mousemove_event s2 x y)) ! t2)
       \<and> style_top (elements (dispatchEvent p1 (mousemove_event s1 x y)) ! t1) =
         style_top (elements (dispatchEvent p2 (mousemove_event s2 x y)) ! t2)
       \<and> style_display (elements (dispatchEvent p1 (mousemove_event s1 x y)) ! t1) =
         style_display (elements (dispatchEvent p2 (mousemove_event s2 x y)) ! t2)
       \<and> innerHTML (elements (dispatchEvent p1 (mousemove_event s1 x y)) ! t1) =
         innerHTML (elements (dispatchEvent p2 (mousemove_event s2 x y)) ! t2)"
proof -
  have t1: "t1 < length (elements p1)"
    using assms(1,2) by (rule loaded_tooltip_bound)
  have t2: "t2 < length (elements p2)"
    using assms(4,5) by (rule loaded_tooltip_bound)
  have e: "\<And>s. target (mousemove_event s x y) = s"
    "\<And>s. ev_type (mousemove_event s x y) = ''mousemove''"
    "\<And>s. pageX (mousemove_event s x y) = x" "\<And>s. pageY (mousemove_event s x y) = y"
    by (simp_all add: mousemove_event_def)
  have r1: "dispatchEvent p1 (mousemove_event s1 x y) =
    p1\<lparr>elements := (elements p1)[t1 := (elements p1 ! t1)
        \<lparr>style_left := number_to_string (number_add x 10) @ ''px'',
         style_top := number_to_string (number_add y 10) @ ''px'',
         style_display := ''block'',
         innerHTML := element_id (elements p1 ! s1) @ '': '' @
                      template_string (getAttribute (elements p1 ! s1) ''data-inflation'')\<rparr>]\<rparr>"
    using dispatch_mousemove [OF assms(1,2), of "mousemove_event s1 x y"] assms(3) by (simp add: e)
  have r2: "dispatchEvent p2 (mousemove_event s2 x y) =
    p2\<lparr>elements := (elements p2)[t2 := (elements p2 ! t2)
        \<lparr>style_left := number_to_string (number_add x 10) @ ''px'',
         style_top := number_to_string (number_add y 10) @ ''px'',
         style_display := ''block'',
         innerHTML := element_id (elements p2 ! s2) @ '': '' @
                      template_string (getAttribute (elements p2 ! s2) ''data-inflation'')\<rparr>]\<rparr>"
    using dispatch_mousemove [OF assms(4,5), of "mousemove_event s2 x y"] assms(6) by (simp add: e)
  show ?thesis
    using t1 t2 assms(7,8) by (simp add: r1 r2)
qed

text \<open>The same move over \<^verbatim>\<open>CA\<close> on the fresh page and on the page after other events.\<close>

theorem mousemove_deterministic_witness:
  "style_left (elements (dispatchEvent (script demo_document) (mousemove_event 1 100 200)) ! 0) =
   style_left (elements (dispatchEvent
     (dispatch_all (script demo_document) [mousemove_event 2 7 9, mouseleave_event 2 8 8])
     (mousemove_event 1 100 200)) ! 0)
 \<and> style_top (elements (dispatchEvent (script demo_document) (mousemove_event 1 100 200)) ! 0) =
   style_top (elements (dispatchEvent
     (dispatch_all (script demo_document) [mousemove_event 2 7 9, mouseleave_event 2 8 8])
     (mousemove_event 1 100 200)) ! 0)
 \<and> style_display (elements (dispatchEvent (script demo_document) (mousemove_event 1 100 200)) ! 0) =
   style_display (elements (dispatchEvent
     (dispatch_all (script demo_document) [mousemove_event 2 7 9, mouseleave_event 2 8 8])
     (mousemove_event 1 100 200)) ! 0)
 \<and> innerHTML (elements (dispatchEvent (script demo_document) (mousemove_event 1 100 200)) ! 0) =
   innerHTML (elements (dispatchEvent
     (dispatch_all (script demo_document) [mousemove_event 2 7 9, mouseleave_event 2 8 8])
     (mousemove_event 1 100 200)) ! 0)
 \<and> innerHTML (elements (script demo_document) ! 0) \<noteq>
   innerHTML (elements (dispatch_all (script demo_document) [mousemove_event 2 7 9, mouseleave_event 2 8 8]) ! 0)"
proof -
  let ?p2 = "dispatch_all (script demo_document) [mousemove_event 2 7 9, mouseleave_event 2 8 8]"
  have h1: "loaded demo_document (script demo_document)"
    by (rule loaded_script)
  have h2: "getElementById demo_document ''tooltip'' = Some 0"
    by code_simp
  have h3: "1 \<in> set (querySelectorAll demo_document ''path'')"
    by code_simp
  have h4: "loaded demo_document ?p2"
    by code_simp
  have h7: "element_id (elements (script demo_document) ! 1) = element_id (elements ?p2 ! 1)"
    by code_simp
  have h8: "getAttribute (elements (script demo_document) ! 1) ''data-inflation'' =
      getAttribute (elements ?p2 ! 1) ''data-inflation''"
    by code_simp
  have h9: "innerHTML (elements (script demo_document) ! 0) \<noteq> innerHTML (elements ?p2 ! 0)"
    by code_simp
  show ?thesis
    using mousemove_deterministic [OF h1 h2 h3 h4 h2 h3 h7 h8, of 100 200] h9
    by (intro conjI) (elim conjE, assumption)+
qed

text \<open>
  Claim C10. The data attribute of a region is read when the event is dispatched, not
  when the script is loaded: after the attribute has been set to a new value \<open>V'\<close>, a
  pointer-move event over the region shows \<open>V'\<close>.
\<close>

theorem mousemove_reads_current_attribute:
  assumes "loaded d p" and "getElementById d ''tooltip'' = Some t"
    and "state \<in> set (querySelectorAll d ''path'')"
  shows "innerHTML (elements (dispatchEvent (setAttribute state ''data-inflation'' V' p)
           (mousemove_event state x y)) ! t) =
         element_id (elements p ! state) @ '': '' @ V'"
proof -
  let ?q = "setAttribute state ''data-inflation'' V' p"
  have q: "loaded d ?q"
    using assms(1) by (rule loaded_setAttribute)
  have t: "t < length (elements ?q)"
    using q assms(2) by (rule loaded_tooltip_bound)
  have s: "state < length (elements p)"
    using assms(1,3) by (rule loaded_region_bound)
  have v: "getAttribute (elements ?q ! state) ''data-inflation'' = Some V'"
    using s by (simp add: getAttribute_setAttribute)
  have "getAttribute (elements ?q ! state) ''id'' = getAttribute (elements p ! state) ''id''"
    using s by (simp add: getAttribute_setAttribute)
  then have i: "element_id (elements ?q ! state) = element_id (elements p ! state)"
    by (simp add: element_id_def)
  have "target (mousemove_event state x y) = state"
    and "ev_type (mousemove_event state x y) = ''mousemove''"
    by (simp_all add: mousemove_event_def)
  with q assms(2,3) t v i show ?thesis
    by (simp add: dispatch_mousemove template_string_def)
qed

text \<open>The value of \<^verbatim>\<open>CA\<close> changes from \<^verbatim>\<open>3.2%\<close> to \<^verbatim>\<open>4.1%\<close> after a first move.\<close>

theorem mousemove_reads_current_attribute_witness:
  "innerHTML (elements (dispatchEvent (script demo_document) (mousemove_event 1 100 200)) ! 0) = ''CA: 3.2%''
 \<and> innerHTML (elements (dispatchEvent
      (setAttribute 1 ''data-inflation'' ''4.1%''
        (dispatchEvent (script demo_document) (mousemove_event 1 100 200)))
      (mousemove_event 1 100 200)) ! 0) = ''CA: 4.1%''"
proof -
  have h1: "loaded demo_document (dispatchEvent (script demo_document) (mousemove_event 1 100 200))"
    by code_simp
  have h2: "getElementById demo_document ''tooltip'' = Some 0"
    by code_simp
  have h3: "1 \<in> set (querySelectorAll demo_document ''path'')"
    by code_simp
  have h4: "innerHTML (elements (dispatchEvent (script demo_document) (mousemove_event 1 100 200)) ! 0) = ''CA: 3.2%''"
    by code_simp
  have h5: "element_id (elements (dispatchEvent (script demo_document) (mousemove_event 1 100 200)) ! 1) = ''CA''"
    by code_simp
  show ?thesis
    using mousemove_reads_current_attribute [OF h1 h2 h3, of "''4.1%''" 100 200] h4 h5 by simp
qed

end
